theory Spec2Isabelle
  imports Main
begin

section \<open>The stdout logger builder and its call into the logging runtime\<close>

text \<open>
  The embedded code is \<^verbatim>\<open>src/log/stdout_logger_cpp_init/stdout_logger_init.h\<close> and
  \<^verbatim>\<open>stdout_logger_init.cpp\<close>: the class \<^verbatim>\<open>StdoutLoggerBuilder\<close>, its five setters and
  \<^verbatim>\<open>SetAsDefaultLogger\<close>, which hands the configuration to the foreign function
  \<^verbatim>\<open>set_default_logger\<close> as one pointer and length pair and four nullable pointers.
\<close>

subsection \<open>Data: the severity enumeration and the builder\<close>

text \<open>\<^verbatim>\<open>enum class LogLevel\<close> (header, lines 23 to 32), enumerators in declaration order.\<close>

datatype LogLevel = Off | Fatal | Error | Warn | Info | Debug | Verbose

text \<open>
  The enumerators carry no initialiser, so the language numbers them from zero in
  declaration order; this is the value an object of the enumeration holds in storage.
\<close>

fun LogLevel_ordinal :: "LogLevel \<Rightarrow> nat" where
  "LogLevel_ordinal Off = 0"
| "LogLevel_ordinal Fatal = 1"
| "LogLevel_ordinal Error = 2"
| "LogLevel_ordinal Warn = 3"
| "LogLevel_ordinal Info = 4"
| "LogLevel_ordinal Debug = 5"
| "LogLevel_ordinal Verbose = 6"

text \<open>
  The private members of \<^verbatim>\<open>StdoutLoggerBuilder\<close> (header, lines 73 to 77): five
  \<^verbatim>\<open>std::optional\<close> values, \<open>None\<close> for an empty optional. The source spells the
  members with a trailing underscore (\<^verbatim>\<open>context_\<close>), which is not a name here, so each
  is written with the suffix \<open>_member\<close>.
\<close>

record StdoutLoggerBuilder =
  context_member :: "string option"
  show_module_member :: "bool option"
  show_file_member :: "bool option"
  show_line_member :: "bool option"
  log_level_member :: "LogLevel option"

text \<open>
  The class declares no constructor: \<^verbatim>\<open>StdoutLoggerBuilder builder;\<close> default-constructs
  every member, and a default-constructed optional is empty.
\<close>

definition StdoutLoggerBuilder_init :: StdoutLoggerBuilder where
  "StdoutLoggerBuilder_init =
     \<lparr>context_member = None, show_module_member = None, show_file_member = None,
      show_line_member = None, log_level_member = None\<rparr>"

subsection \<open>The setters\<close>

text \<open>
  Each setter assigns its argument to one member and returns \<^verbatim>\<open>*this\<close>
  (\<^verbatim>\<open>stdout_logger_init.cpp\<close>, lines 26 to 54); the model returns the updated builder.
  These functions are what a setter computes when it returns. The assignment in
  \<^verbatim>\<open>Context\<close> copies a string and can fail to allocate: the ways a call can end are
  modelled below, by \<open>Context_noexcept\<close> and its siblings.
\<close>

definition Context :: "string \<Rightarrow> StdoutLoggerBuilder \<Rightarrow> StdoutLoggerBuilder" where
  "Context context this = this\<lparr>context_member := Some context\<rparr>"

definition ShowModule :: "bool \<Rightarrow> StdoutLoggerBuilder \<Rightarrow> StdoutLoggerBuilder" where
  "ShowModule show_module this = this\<lparr>show_module_member := Some show_module\<rparr>"

definition ShowFile :: "bool \<Rightarrow> StdoutLoggerBuilder \<Rightarrow> StdoutLoggerBuilder" where
  "ShowFile show_file this = this\<lparr>show_file_member := Some show_file\<rparr>"

definition ShowLine :: "bool \<Rightarrow> StdoutLoggerBuilder \<Rightarrow> StdoutLoggerBuilder" where
  "ShowLine show_line this = this\<lparr>show_line_member := Some show_line\<rparr>"

definition LogLevel :: "LogLevel \<Rightarrow> StdoutLoggerBuilder \<Rightarrow> StdoutLoggerBuilder" where
  "LogLevel log_level this = this\<lparr>log_level_member := Some log_level\<rparr>"

text \<open>A chain of setter calls, in program order.\<close>

datatype setter_call =
    Context_call string
  | ShowModule_call bool
  | ShowFile_call bool
  | ShowLine_call bool
  | LogLevel_call LogLevel

fun apply_setter :: "setter_call \<Rightarrow> StdoutLoggerBuilder \<Rightarrow> StdoutLoggerBuilder" where
  "apply_setter (Context_call context) this = Context context this"
| "apply_setter (ShowModule_call show_module) this = ShowModule show_module this"
| "apply_setter (ShowFile_call show_file) this = ShowFile show_file this"
| "apply_setter (ShowLine_call show_line) this = ShowLine show_line this"
| "apply_setter (LogLevel_call log_level) this = LogLevel log_level this"

primrec run_setters :: "setter_call list \<Rightarrow> StdoutLoggerBuilder \<Rightarrow> StdoutLoggerBuilder" where
  "run_setters [] this = this"
| "run_setters (c # cs) this = run_setters cs (apply_setter c this)"

text \<open>The five settings of the specification, and the one a setter configures.\<close>

datatype setting = Setting_context | Setting_showModule | Setting_showFile | Setting_showLine
  | Setting_severity

fun setting_of :: "setter_call \<Rightarrow> setting" where
  "setting_of (Context_call _) = Setting_context"
| "setting_of (ShowModule_call _) = Setting_showModule"
| "setting_of (ShowFile_call _) = Setting_showFile"
| "setting_of (ShowLine_call _) = Setting_showLine"
| "setting_of (LogLevel_call _) = Setting_severity"

subsection \<open>Storage, pointers and lifetimes\<close>

text \<open>
  \<^verbatim>\<open>SetAsDefaultLogger\<close> takes addresses of five pieces of storage. Four are the values
  contained in members of \<^verbatim>\<open>*this\<close> (\<^verbatim>\<open>&show_module_.value()\<close> and its siblings): they
  exist as long as the builder does and the member holds a value. The fifth is the
  character array of the local string \<^verbatim>\<open>value\<close> declared inside the \<^verbatim>\<open>if\<close> block at
  line 62 (\<^verbatim>\<open>value.c_str()\<close>): \<^verbatim>\<open>auto value{context_.value()}\<close> deduces
  \<^verbatim>\<open>std::string\<close>, so \<^verbatim>\<open>value\<close> is a copy of the member with automatic storage, and
  its array exists from the declaration to the closing brace of the block at line 65.
\<close>

datatype place =
    value_chars
  | show_module_value
  | show_file_value
  | show_line_value
  | log_level_value

type_synonym pointer = "place option"

abbreviation nullptr :: pointer where
  "nullptr \<equiv> None"

text \<open>
  The storage the method can address while it runs: the builder it was called on, and
  the local \<^verbatim>\<open>value\<close>, which is \<open>None\<close> outside its scope.
\<close>

record memory =
  this_object :: StdoutLoggerBuilder
  value_local :: "string option"

datatype object = Chars_object string | Bool_object bool | Level_object LogLevel

text \<open>
  What lives at a place: \<open>None\<close> when no object is alive there. \<^verbatim>\<open>c_str()\<close> addresses
  an array of \<^verbatim>\<open>size() + 1\<close> characters, the last one the terminating zero.
\<close>

fun load :: "memory \<Rightarrow> place \<Rightarrow> object option" where
  "load m value_chars =
     (case value_local m of None \<Rightarrow> None | Some s \<Rightarrow> Some (Chars_object (s @ [CHR 0x00])))"
| "load m show_module_value =
     (case show_module_member (this_object m) of
        None \<Rightarrow> None | Some b \<Rightarrow> Some (Bool_object b))"
| "load m show_file_value =
     (case show_file_member (this_object m) of
        None \<Rightarrow> None | Some b \<Rightarrow> Some (Bool_object b))"
| "load m show_line_value =
     (case show_line_member (this_object m) of
        None \<Rightarrow> None | Some b \<Rightarrow> Some (Bool_object b))"
| "load m log_level_value =
     (case log_level_member (this_object m) of
        None \<Rightarrow> None | Some l \<Rightarrow> Some (Level_object l))"

subsection \<open>Operations of \<^verbatim>\<open>std::optional\<close>\<close>

text \<open>
  \<^verbatim>\<open>value()\<close> throws \<^verbatim>\<open>std::bad_optional_access\<close> on an empty optional; the contextual
  conversion to \<^verbatim>\<open>bool\<close> is \<^verbatim>\<open>has_value()\<close>. The other exception of these sources is
  \<^verbatim>\<open>std::bad_alloc\<close>, thrown by a string copy whose allocation fails.
\<close>

datatype error = bad_optional_access | bad_alloc

definition has_value :: "'a option \<Rightarrow> bool" where
  "has_value opt = (opt \<noteq> None)"

definition optional_value :: "'a option \<Rightarrow> error + 'a" where
  "optional_value opt = (case opt of None \<Rightarrow> Inl bad_optional_access | Some v \<Rightarrow> Inr v)"

text \<open>\<^verbatim>\<open>&opt.value()\<close>, for the optional whose contained value lives at place \<open>p\<close>.\<close>

definition address_of_value :: "'a option \<Rightarrow> place \<Rightarrow> error + pointer" where
  "address_of_value opt p =
     (case optional_value opt of Inl e \<Rightarrow> Inl e | Inr v \<Rightarrow> Inr (Some p))"

text \<open>The initialiser \<^verbatim>\<open>opt ? &opt.value() : nullptr\<close> of lines 67 to 70.\<close>

definition address_or_null :: "'a option \<Rightarrow> place \<Rightarrow> error + pointer" where
  "address_or_null opt p = (if has_value opt then address_of_value opt p else Inr nullptr)"

subsection \<open>\<^verbatim>\<open>SetAsDefaultLogger\<close>\<close>

text \<open>
  The six arguments of \<^verbatim>\<open>set_default_logger\<close> (declaration at lines 16 to 21). The
  length is a \<^verbatim>\<open>size_t\<close> assigned from \<^verbatim>\<open>std::string::size()\<close>, itself a \<^verbatim>\<open>size_t\<close>: no
  conversion or arithmetic takes place, so it is the length of the string as a natural
  number.
\<close>

record call_args =
  context_ptr :: pointer
  context_size :: nat
  show_module :: pointer
  show_file :: pointer
  show_line :: pointer
  log_level :: pointer

text \<open>
  One call across the boundary: the arguments, the caller's storage as it is while the
  callee runs, and what the callee made of them. \<^verbatim>\<open>set_default_logger\<close> is declared
  \<^verbatim>\<open>extern "C"\<close> and defined outside these sources, so it is a parameter of the model:
  a function of the arguments and of the storage it may read through them (every
  pointer parameter points to \<^verbatim>\<open>const\<close>). It returns \<^verbatim>\<open>void\<close>; \<open>'r\<close> is its effect on the
  receiving runtime, which the caller never sees.
\<close>

record 'r boundary_call =
  arguments :: call_args
  memory_during :: memory
  effect :: 'r

record 'r outcome =
  calls :: "'r boundary_call list"
  this_after :: StdoutLoggerBuilder

text \<open>
  Lines 58 to 65. The block declares \<^verbatim>\<open>value\<close>, takes the address of its characters
  and its size, and ends: at the closing brace \<^verbatim>\<open>value\<close> is destroyed, while
  \<^verbatim>\<open>context_ptr\<close> and \<^verbatim>\<open>context_size\<close>, declared outside the block, keep what was
  assigned to them. \<^verbatim>\<open>c_str()\<close> never returns the null pointer, also for an empty
  string. The local variables are written with a prime, their plain names being the
  fields of \<open>call_args\<close>.
\<close>

definition context_block :: "memory \<Rightarrow> error + (pointer \<times> nat \<times> memory)" where
  "context_block m =
     (if has_value (context_member (this_object m)) then
        (case optional_value (context_member (this_object m)) of
           Inl e \<Rightarrow> Inl e
         | Inr v \<Rightarrow>
             (let m_in_block = m\<lparr>value_local := Some v\<rparr>;
                  context_ptr' = Some value_chars;
                  context_size' = length v;
                  m_after_block = m_in_block\<lparr>value_local := None\<rparr>
              in Inr (context_ptr', context_size', m_after_block)))
      else Inr (nullptr, 0, m))"

text \<open>
  The whole method (lines 56 to 73). \<open>Inl\<close> is an exception reaching the \<^verbatim>\<open>noexcept\<close>
  boundary of the method. This is the run in which the copy at line 62 gets its storage
  and the callee returns; \<open>SetAsDefaultLogger_noexcept\<close> below adds the other runs.
\<close>

definition SetAsDefaultLogger ::
  "(call_args \<Rightarrow> memory \<Rightarrow> 'r) \<Rightarrow> StdoutLoggerBuilder \<Rightarrow> error + 'r outcome" where
  "SetAsDefaultLogger set_default_logger this =
     (case context_block \<lparr>this_object = this, value_local = None\<rparr> of
        Inl e \<Rightarrow> Inl e
      | Inr (context_ptr', context_size', m) \<Rightarrow>
     (case address_or_null (show_module_member (this_object m)) show_module_value of
        Inl e \<Rightarrow> Inl e
      | Inr show_module' \<Rightarrow>
     (case address_or_null (show_file_member (this_object m)) show_file_value of
        Inl e \<Rightarrow> Inl e
      | Inr show_file' \<Rightarrow>
     (case address_or_null (show_line_member (this_object m)) show_line_value of
        Inl e \<Rightarrow> Inl e
      | Inr show_line' \<Rightarrow>
     (case address_or_null (log_level_member (this_object m)) log_level_value of
        Inl e \<Rightarrow> Inl e
      | Inr log_level' \<Rightarrow>
          (let a = \<lparr>context_ptr = context_ptr', context_size = context_size',
                    show_module = show_module', show_file = show_file',
                    show_line = show_line', log_level = log_level'\<rparr>
           in Inr \<lparr>calls = [\<lparr>arguments = a, memory_during = m,
                              effect = set_default_logger a m\<rparr>],
                   this_after = this_object m\<rparr>))))))"

subsection \<open>The receiving side of the call\<close>

text \<open>
  Modelled from the spec: the body of \<^verbatim>\<open>set_default_logger\<close>, the install operation of the
  logging runtime, is not among the sources (only its declaration is, at lines 16 to
  21). Section 4.3 of the specification says what it does with its arguments: it
  ``reads all provided pointers and copies every referenced value into its own storage
  before returning'', and for a null pointer it substitutes its own default. A read
  through a pointer finds what \<open>load\<close> finds in the caller's storage during the call;
  where no object is alive at the place the read has no defined result. A copy of
  zero bytes reads no storage.
\<close>

datatype 'a received = absent | copied 'a | undefined_read

definition read_chars :: "memory \<Rightarrow> pointer \<Rightarrow> nat \<Rightarrow> string received" where
  "read_chars m p n =
     (case p of
        None \<Rightarrow> absent
      | Some a \<Rightarrow>
          if n = 0 then copied []
          else (case load m a of
                  Some (Chars_object cs) \<Rightarrow>
                    if n \<le> length cs then copied (take n cs) else undefined_read
                | _ \<Rightarrow> undefined_read))"

definition read_bool :: "memory \<Rightarrow> pointer \<Rightarrow> bool received" where
  "read_bool m p =
     (case p of
        None \<Rightarrow> absent
      | Some a \<Rightarrow>
          (case load m a of Some (Bool_object b) \<Rightarrow> copied b | _ \<Rightarrow> undefined_read))"

definition read_ordinal :: "memory \<Rightarrow> pointer \<Rightarrow> nat received" where
  "read_ordinal m p =
     (case p of
        None \<Rightarrow> absent
      | Some a \<Rightarrow>
          (case load m a of
             Some (Level_object l) \<Rightarrow> copied (LogLevel_ordinal l)
           | _ \<Rightarrow> undefined_read))"

record installed =
  got_context :: "string received"
  got_show_module :: "bool received"
  got_show_file :: "bool received"
  got_show_line :: "bool received"
  got_severity :: "nat received"

definition set_default_logger_spec :: "call_args \<Rightarrow> memory \<Rightarrow> installed" where
  "set_default_logger_spec a m =
     \<lparr>got_context = read_chars m (context_ptr a) (context_size a),
      got_show_module = read_bool m (show_module a),
      got_show_file = read_bool m (show_file a),
      got_show_line = read_bool m (show_line a),
      got_severity = read_ordinal m (log_level a)\<rparr>"

subsection \<open>How a call ends: exceptions and \<^verbatim>\<open>noexcept\<close>\<close>
















section \<open>Properties\<close>

subsection \<open>The steps of \<^verbatim>\<open>SetAsDefaultLogger\<close>\<close>

text \<open>
  The conditional initialisers never reach \<^verbatim>\<open>value()\<close> on an empty optional, so they
  never throw.
\<close>

lemma address_or_null_eq:
  "address_or_null opt p = Inr (if opt = None then nullptr else Some p)"
  by (cases opt) (simp_all add: address_or_null_def address_of_value_def has_value_def
      optional_value_def)

text \<open>
  The block of lines 60 to 65 never throws either, and leaves the storage as it found
  it: \<^verbatim>\<open>value\<close> is out of scope again once the block is left.
\<close>

lemma context_block_eq:
  "context_block \<lparr>this_object = this, value_local = None\<rparr> =
     Inr (if context_member this = None then nullptr else Some value_chars,
          (case context_member this of None \<Rightarrow> 0 | Some v \<Rightarrow> length v),
          \<lparr>this_object = this, value_local = None\<rparr>)"
  by (cases "context_member this")
    (simp_all add: context_block_def has_value_def optional_value_def)

text \<open>The method in closed form: one call, with these arguments, in this storage.\<close>

lemma SetAsDefaultLogger_eq:
  "SetAsDefaultLogger f this =
     Inr \<lparr>calls =
            [\<lparr>arguments =
                \<lparr>context_ptr =
                   (if context_member this = None then nullptr else Some value_chars),
                 context_size =
                   (case context_member this of None \<Rightarrow> 0 | Some v \<Rightarrow> length v),
                 show_module =
                   (if show_module_member this = None then nullptr
                    else Some show_module_value),
                 show_file =
                   (if show_file_member this = None then nullptr else Some show_file_value),
                 show_line =
                   (if show_line_member this = None then nullptr else Some show_line_value),
                 log_level =
                   (if log_level_member this = None then nullptr
                    else Some log_level_value)\<rparr>,
              memory_during = \<lparr>this_object = this, value_local = None\<rparr>,
              effect =
                f \<lparr>context_ptr =
                     (if context_member this = None then nullptr else Some value_chars),
                   context_size =
                     (case context_member this of None \<Rightarrow> 0 | Some v \<Rightarrow> length v),
                   show_module =
                     (if show_module_member this = None then nullptr
                      else Some show_module_value),
                   show_file =
                     (if show_file_member this = None then nullptr
                      else Some show_file_value),
                   show_line =
                     (if show_line_member this = None then nullptr
                      else Some show_line_value),
                   log_level =
                     (if log_level_member this = None then nullptr
                      else Some log_level_value)\<rparr>
                  \<lparr>this_object = this, value_local = None\<rparr>\<rparr>],
           this_after = this\<rparr>"
  by (simp add: SetAsDefaultLogger_def context_block_eq address_or_null_eq Let_def)

text \<open>The same, read off field by field.\<close>

lemma SetAsDefaultLogger_call:
  "\<exists>c out. SetAsDefaultLogger f this = Inr out \<and> calls out = [c] \<and>
     this_after out = this \<and>
     memory_during c = \<lparr>this_object = this, value_local = None\<rparr> \<and>
     effect c = f (arguments c) (memory_during c) \<and>
     context_ptr (arguments c) =
       (if context_member this = None then nullptr else Some value_chars) \<and>
     context_size (arguments c) =
       (case context_member this of None \<Rightarrow> 0 | Some v \<Rightarrow> length v) \<and>
     show_module (arguments c) =
       (if show_module_member this = None then nullptr else Some show_module_value) \<and>
     show_file (arguments c) =
       (if show_file_member this = None then nullptr else Some show_file_value) \<and>
     show_line (arguments c) =
       (if show_line_member this = None then nullptr else Some show_line_value) \<and>
     log_level (arguments c) =
       (if log_level_member this = None then nullptr else Some log_level_value)"
  by (simp add: SetAsDefaultLogger_eq)

subsection \<open>A fresh builder\<close>

text \<open>
  C4. When no setter is called on a fresh builder before \<^verbatim>\<open>SetAsDefaultLogger\<close>, the
  one call to \<^verbatim>\<open>set_default_logger\<close> has all five pointer arguments null and the
  context length 0.
\<close>

theorem C4_fresh_builder_all_null:
  "\<exists>m r. SetAsDefaultLogger f (run_setters [] StdoutLoggerBuilder_init) =
     Inr \<lparr>calls =
            [\<lparr>arguments =
                \<lparr>context_ptr = nullptr, context_size = 0, show_module = nullptr,
                 show_file = nullptr, show_line = nullptr, log_level = nullptr\<rparr>,
              memory_during = m, effect = r\<rparr>],
           this_after = StdoutLoggerBuilder_init\<rparr>"
  by (simp add: SetAsDefaultLogger_eq StdoutLoggerBuilder_init_def)

subsection \<open>Severity\<close>

lemma UNIV_LogLevel: "(UNIV :: LogLevel set) = {Off, Fatal, Error, Warn, Info, Debug, Verbose}"
proof -
  have "l \<in> {Off, Fatal, Error, Warn, Info, Debug, Verbose}" for l
    by (cases l) simp_all
  then show ?thesis by blast
qed

lemma inj_LogLevel_ordinal: "inj LogLevel_ordinal"
proof (rule injI)
  fix x y
  assume "LogLevel_ordinal x = LogLevel_ordinal y"
  then show "x = y"
    by (cases x; cases y) simp_all
qed

lemma range_LogLevel_ordinal: "range LogLevel_ordinal = {0..6}"
proof -
  have "{0..6::nat} = {0, 1, 2, 3, 4, 5, 6}"
    by auto
  then show ?thesis
    by (simp add: UNIV_LogLevel)
qed

text \<open>
  C5. For each of the seven levels, \<^verbatim>\<open>LogLevel(level)\<close> followed by
  \<^verbatim>\<open>SetAsDefaultLogger\<close> passes a non-null severity pointer; the object it addresses
  during the call is the level that was set, whose stored value is its ordinal, with
  Off = 0, Fatal = 1, Error = 2, Warn = 3, Info = 4, Debug = 5 and Verbose = 6; and the
  mapping from levels to ordinals is a bijection between the seven levels and 0..6.
\<close>

theorem C5_severity_pointer_and_ordinal:
  "(\<exists>c out. SetAsDefaultLogger f (LogLevel l this) = Inr out \<and> calls out = [c] \<and>
      log_level (arguments c) = Some log_level_value \<and>
      log_level (arguments c) \<noteq> nullptr \<and>
      load (memory_during c) log_level_value = Some (Level_object l)) \<and>
   map LogLevel_ordinal [Off, Fatal, Error, Warn, Info, Debug, Verbose] =
     [0, 1, 2, 3, 4, 5, 6] \<and>
   bij_betw LogLevel_ordinal UNIV {0..6}"
proof -
  have call: "\<exists>c out. SetAsDefaultLogger f (LogLevel l this) = Inr out \<and> calls out = [c] \<and>
      log_level (arguments c) = Some log_level_value \<and>
      log_level (arguments c) \<noteq> nullptr \<and>
      load (memory_during c) log_level_value = Some (Level_object l)"
    by (simp add: SetAsDefaultLogger_eq LogLevel_def)
  have table: "map LogLevel_ordinal [Off, Fatal, Error, Warn, Info, Debug, Verbose] =
      [0, 1, 2, 3, 4, 5, 6]"
    by simp
  have "bij_betw LogLevel_ordinal UNIV {0..6}"
    unfolding bij_betw_def using inj_LogLevel_ordinal range_LogLevel_ordinal by simp
  with call table show ?thesis by blast
qed

subsection \<open>Overwriting\<close>

text \<open>
  C6. A repeated call to a setter overwrites the value stored by the earlier call: after
  two calls of the same setter the member holds the argument of the second call, and the
  builder is the one the second call alone would have produced. After
  \<^verbatim>\<open>ShowModule(v1); ShowModule(v2); SetAsDefaultLogger()\<close> the call's \<^verbatim>\<open>show_module\<close>
  pointer is non-null and the object it addresses during the call is \<^verbatim>\<open>v2\<close>; in
  particular, after \<^verbatim>\<open>ShowModule(true); ShowModule(false); SetAsDefaultLogger()\<close> it is
  \<^verbatim>\<open>false\<close>, never \<^verbatim>\<open>true\<close>.
\<close>

theorem C6_last_write_wins:
  "context_member (Context t2 (Context t1 this)) = Some t2 \<and>
   show_module_member (ShowModule v2 (ShowModule v1 this)) = Some v2 \<and>
   show_file_member (ShowFile v2 (ShowFile v1 this)) = Some v2 \<and>
   show_line_member (ShowLine v2 (ShowLine v1 this)) = Some v2 \<and>
   log_level_member (LogLevel l2 (LogLevel l1 this)) = Some l2 \<and>
   Context t2 (Context t1 this) = Context t2 this \<and>
   ShowModule v2 (ShowModule v1 this) = ShowModule v2 this \<and>
   ShowFile v2 (ShowFile v1 this) = ShowFile v2 this \<and>
   ShowLine v2 (ShowLine v1 this) = ShowLine v2 this \<and>
   LogLevel l2 (LogLevel l1 this) = LogLevel l2 this \<and>
   (\<exists>c out. SetAsDefaultLogger f (ShowModule v2 (ShowModule v1 this)) = Inr out \<and>
      calls out = [c] \<and>
      show_module (arguments c) = Some show_module_value \<and>
      load (memory_during c) show_module_value = Some (Bool_object v2)) \<and>
   (\<exists>c out. SetAsDefaultLogger f (ShowModule False (ShowModule True this)) = Inr out \<and>
      calls out = [c] \<and>
      show_module (arguments c) = Some show_module_value \<and>
      show_module (arguments c) \<noteq> nullptr \<and>
      load (memory_during c) show_module_value = Some (Bool_object False) \<and>
      load (memory_during c) show_module_value \<noteq> Some (Bool_object True))"
  by (simp add: SetAsDefaultLogger_eq Context_def ShowModule_def ShowFile_def ShowLine_def
      LogLevel_def)

subsection \<open>No error reaches the caller\<close>












subsection \<open>The builder after the call\<close>

text \<open>
  C9. \<^verbatim>\<open>SetAsDefaultLogger\<close> leaves the builder as it was: after the call each of the
  five stored optionals equals its value before the call, and a second call on the same
  builder makes the same boundary call, with the same null pattern and the same values.
\<close>

theorem C9_builder_unchanged:
  "\<exists>out. SetAsDefaultLogger f this = Inr out \<and>
     this_after out = this \<and>
     context_member (this_after out) = context_member this \<and>
     show_module_member (this_after out) = show_module_member this \<and>
     show_file_member (this_after out) = show_file_member this \<and>
     show_line_member (this_after out) = show_line_member this \<and>
     log_level_member (this_after out) = log_level_member this \<and>
     SetAsDefaultLogger f (this_after out) = Inr out"
  by (simp add: SetAsDefaultLogger_eq)

subsection \<open>The empty context\<close>

text \<open>
  C10. When the context has been set to the empty string, \<^verbatim>\<open>SetAsDefaultLogger\<close> passes
  a non-null context pointer with length 0; when the context is unset it passes the null
  pointer with length 0. The two differ in the pointer and not in the length.
\<close>

theorem C10_empty_context_nonnull_length_zero:
  "(\<exists>c out. SetAsDefaultLogger f (Context [] this) = Inr out \<and> calls out = [c] \<and>
      context_ptr (arguments c) \<noteq> nullptr \<and> context_size (arguments c) = 0) \<and>
   (\<exists>c out. SetAsDefaultLogger f (this\<lparr>context_member := None\<rparr>) = Inr out \<and>
      calls out = [c] \<and>
      context_ptr (arguments c) = nullptr \<and> context_size (arguments c) = 0)"
  by (simp add: SetAsDefaultLogger_eq Context_def)

subsection \<open>Which pointers are null\<close>

text \<open>A member holds a value after a chain of setters exactly when it did before or
  the chain calls its setter.\<close>

lemma run_setters_context_member:
  "(context_member (run_setters cs this) = None) =
     (context_member this = None \<and> Setting_context \<notin> setting_of ` set cs)"
proof (induction cs arbitrary: this)
  case Nil
  show ?case by simp
next
  case (Cons c cs)
  show ?case
    using Cons.IH [of "apply_setter c this"]
    by (cases c) (auto simp: Context_def ShowModule_def ShowFile_def ShowLine_def LogLevel_def)
qed

lemma run_setters_show_module_member:
  "(show_module_member (run_setters cs this) = None) =
     (show_module_member this = None \<and> Setting_showModule \<notin> setting_of ` set cs)"
proof (induction cs arbitrary: this)
  case Nil
  show ?case by simp
next
  case (Cons c cs)
  show ?case
    using Cons.IH [of "apply_setter c this"]
    by (cases c) (auto simp: Context_def ShowModule_def ShowFile_def ShowLine_def LogLevel_def)
qed

lemma run_setters_show_file_member:
  "(show_file_member (run_setters cs this) = None) =
     (show_file_member this = None \<and> Setting_showFile \<notin> setting_of ` set cs)"
proof (induction cs arbitrary: this)
  case Nil
  show ?case by simp
next
  case (Cons c cs)
  show ?case
    using Cons.IH [of "apply_setter c this"]
    by (cases c) (auto simp: Context_def ShowModule_def ShowFile_def ShowLine_def LogLevel_def)
qed

lemma run_setters_show_line_member:
  "(show_line_member (run_setters cs this) = None) =
     (show_line_member this = None \<and> Setting_showLine \<notin> setting_of ` set cs)"
proof (induction cs arbitrary: this)
  case Nil
  show ?case by simp
next
  case (Cons c cs)
  show ?case
    using Cons.IH [of "apply_setter c this"]
    by (cases c) (auto simp: Context_def ShowModule_def ShowFile_def ShowLine_def LogLevel_def)
qed

lemma run_setters_log_level_member:
  "(log_level_member (run_setters cs this) = None) =
     (log_level_member this = None \<and> Setting_severity \<notin> setting_of ` set cs)"
proof (induction cs arbitrary: this)
  case Nil
  show ?case by simp
next
  case (Cons c cs)
  show ?case
    using Cons.IH [of "apply_setter c this"]
    by (cases c) (auto simp: Context_def ShowModule_def ShowFile_def ShowLine_def LogLevel_def)
qed

text \<open>
  C2, as the claim states it, asks for a non-zero context length whenever the context
  is among the configured settings. It fails for the empty text: after
  \<^verbatim>\<open>Context("")\<close> the context is configured, the pointer is non-null, and the length
  passed is 0.
\<close>

theorem C2_counterexample_empty_context:
  "Setting_context \<in> setting_of ` set [Context_call []] \<and>
   SetAsDefaultLogger set_default_logger_spec
       (run_setters [Context_call []] StdoutLoggerBuilder_init) =
     Inr \<lparr>calls =
            [\<lparr>arguments =
                \<lparr>context_ptr = Some value_chars, context_size = 0, show_module = nullptr,
                 show_file = nullptr, show_line = nullptr, log_level = nullptr\<rparr>,
              memory_during =
                \<lparr>this_object = Context [] StdoutLoggerBuilder_init, value_local = None\<rparr>,
              effect =
                \<lparr>got_context = copied [], got_show_module = absent, got_show_file = absent,
                 got_show_line = absent, got_severity = absent\<rparr>\<rparr>],
           this_after = Context [] StdoutLoggerBuilder_init\<rparr>"
  by (simp add: SetAsDefaultLogger_eq StdoutLoggerBuilder_init_def Context_def
      set_default_logger_spec_def read_chars_def read_bool_def read_ordinal_def)

text \<open>
  C2, amended. For every chain of setter calls on a fresh builder followed by
  \<^verbatim>\<open>SetAsDefaultLogger\<close>, with S the set of settings the chain configures, the call
  receives a non-null pointer for exactly the fields in S and a null pointer for every
  other field. The context length is the byte length of the stored context text (0 when
  that text is empty) and 0 when the context is not in S.
\<close>

theorem C2_pointers_non_null_exactly_for_configured:
  "\<exists>c out. SetAsDefaultLogger f (run_setters cs StdoutLoggerBuilder_init) = Inr out \<and>
     calls out = [c] \<and>
     (context_ptr (arguments c) \<noteq> nullptr) = (Setting_context \<in> setting_of ` set cs) \<and>
     (show_module (arguments c) \<noteq> nullptr) = (Setting_showModule \<in> setting_of ` set cs) \<and>
     (show_file (arguments c) \<noteq> nullptr) = (Setting_showFile \<in> setting_of ` set cs) \<and>
     (show_line (arguments c) \<noteq> nullptr) = (Setting_showLine \<in> setting_of ` set cs) \<and>
     (log_level (arguments c) \<noteq> nullptr) = (Setting_severity \<in> setting_of ` set cs) \<and>
     context_size (arguments c) =
       (case context_member (run_setters cs StdoutLoggerBuilder_init) of
          None \<Rightarrow> 0 | Some T \<Rightarrow> length T) \<and>
     (context_ptr (arguments c) = nullptr) =
       (context_member (run_setters cs StdoutLoggerBuilder_init) = None)"
proof -
  let ?b = "run_setters cs StdoutLoggerBuilder_init"
  have fresh: "context_member StdoutLoggerBuilder_init = None"
    "show_module_member StdoutLoggerBuilder_init = None"
    "show_file_member StdoutLoggerBuilder_init = None"
    "show_line_member StdoutLoggerBuilder_init = None"
    "log_level_member StdoutLoggerBuilder_init = None"
    by (simp_all add: StdoutLoggerBuilder_init_def)
  have members:
    "(context_member ?b \<noteq> None) = (Setting_context \<in> setting_of ` set cs)"
    "(show_module_member ?b \<noteq> None) = (Setting_showModule \<in> setting_of ` set cs)"
    "(show_file_member ?b \<noteq> None) = (Setting_showFile \<in> setting_of ` set cs)"
    "(show_line_member ?b \<noteq> None) = (Setting_showLine \<in> setting_of ` set cs)"
    "(log_level_member ?b \<noteq> None) = (Setting_severity \<in> setting_of ` set cs)"
    by (simp_all add: run_setters_context_member run_setters_show_module_member
        run_setters_show_file_member run_setters_show_line_member
        run_setters_log_level_member fresh)
  obtain c out where out: "SetAsDefaultLogger f ?b = Inr out" and c: "calls out = [c]"
    and args:
      "context_ptr (arguments c) =
         (if context_member ?b = None then nullptr else Some value_chars)"
      "show_module (arguments c) =
         (if show_module_member ?b = None then nullptr else Some show_module_value)"
      "show_file (arguments c) =
         (if show_file_member ?b = None then nullptr else Some show_file_value)"
      "show_line (arguments c) =
         (if show_line_member ?b = None then nullptr else Some show_line_value)"
      "log_level (arguments c) =
         (if log_level_member ?b = None then nullptr else Some log_level_value)"
    and size: "context_size (arguments c) =
      (case context_member ?b of None \<Rightarrow> 0 | Some T \<Rightarrow> length T)"
    using SetAsDefaultLogger_call [of f ?b] by blast
  have ptrs:
    "(context_ptr (arguments c) \<noteq> nullptr) = (context_member ?b \<noteq> None)"
    "(show_module (arguments c) \<noteq> nullptr) = (show_module_member ?b \<noteq> None)"
    "(show_file (arguments c) \<noteq> nullptr) = (show_file_member ?b \<noteq> None)"
    "(show_line (arguments c) \<noteq> nullptr) = (show_line_member ?b \<noteq> None)"
    "(log_level (arguments c) \<noteq> nullptr) = (log_level_member ?b \<noteq> None)"
    unfolding args by simp_all
  from ptrs(1) have null: "(context_ptr (arguments c) = nullptr) = (context_member ?b = None)"
    by blast
  from ptrs members have configured:
    "(context_ptr (arguments c) \<noteq> nullptr) = (Setting_context \<in> setting_of ` set cs)"
    "(show_module (arguments c) \<noteq> nullptr) = (Setting_showModule \<in> setting_of ` set cs)"
    "(show_file (arguments c) \<noteq> nullptr) = (Setting_showFile \<in> setting_of ` set cs)"
    "(show_line (arguments c) \<noteq> nullptr) = (Setting_showLine \<in> setting_of ` set cs)"
    "(log_level (arguments c) \<noteq> nullptr) = (Setting_severity \<in> setting_of ` set cs)"
    by simp_all
  show ?thesis
    by (intro exI [of _ c] exI [of _ out] conjI) (fact out c configured size null)+
qed

subsection \<open>Lifetime of the storage behind the pointers\<close>

text \<open>
  The four member pointers address values contained in the builder, which the caller
  keeps alive across the call: each is null when its member is empty and otherwise
  addresses a live object holding the member's value.
\<close>

lemma member_pointers_live:
  "\<exists>c out. SetAsDefaultLogger f this = Inr out \<and> calls out = [c] \<and>
     show_module (arguments c) =
       (case show_module_member this of None \<Rightarrow> nullptr | Some b \<Rightarrow> Some show_module_value) \<and>
     load (memory_during c) show_module_value =
       (case show_module_member this of None \<Rightarrow> None | Some b \<Rightarrow> Some (Bool_object b)) \<and>
     show_file (arguments c) =
       (case show_file_member this of None \<Rightarrow> nullptr | Some b \<Rightarrow> Some show_file_value) \<and>
     load (memory_during c) show_file_value =
       (case show_file_member this of None \<Rightarrow> None | Some b \<Rightarrow> Some (Bool_object b)) \<and>
     show_line (arguments c) =
       (case show_line_member this of None \<Rightarrow> nullptr | Some b \<Rightarrow> Some show_line_value) \<and>
     load (memory_during c) show_line_value =
       (case show_line_member this of None \<Rightarrow> None | Some b \<Rightarrow> Some (Bool_object b)) \<and>
     log_level (arguments c) =
       (case log_level_member this of None \<Rightarrow> nullptr | Some l \<Rightarrow> Some log_level_value) \<and>
     load (memory_during c) log_level_value =
       (case log_level_member this of None \<Rightarrow> None | Some l \<Rightarrow> Some (Level_object l))"
  by (simp add: SetAsDefaultLogger_eq split: option.split)

text \<open>
  The context pointer is different. It is taken from \<^verbatim>\<open>value\<close>, the copy of the member
  made inside the block of lines 60 to 65, and that copy is destroyed at the closing
  brace of the block, seven lines before the call at line 72. Whatever text was set,
  the place the pointer addresses holds no live object while \<^verbatim>\<open>set_default_logger\<close>
  runs.
\<close>

lemma context_pointer_dangles:
  "\<exists>c out. SetAsDefaultLogger f (Context T this) = Inr out \<and> calls out = [c] \<and>
     context_ptr (arguments c) = Some value_chars \<and>
     context_size (arguments c) = length T \<and>
     load (memory_during c) value_chars = None"
  by (simp add: SetAsDefaultLogger_eq Context_def)

text \<open>
  C1 states that, once the context is set to a text T, \<^verbatim>\<open>context_ptr\<close> addresses a
  buffer that is valid and contains the bytes of T during the whole call. The code does
  not do this. After \<^verbatim>\<open>Context("ABCD")\<close> on a fresh builder the call receives
  \<^verbatim>\<open>context_ptr\<close> addressing the characters of \<^verbatim>\<open>value\<close> with length 4, and during
  the call \<^verbatim>\<open>value\<close> is out of scope: no object is alive at that place.
\<close>

theorem C1_context_pointer_addresses_destroyed_string:
  "\<exists>c out. SetAsDefaultLogger set_default_logger_spec
       (Context ''ABCD'' StdoutLoggerBuilder_init) = Inr out \<and>
     calls out = [c] \<and>
     context_ptr (arguments c) = Some value_chars \<and>
     context_size (arguments c) = 4 \<and>
     value_local (memory_during c) = None \<and>
     load (memory_during c) value_chars = None \<and>
     load (memory_during c) value_chars \<noteq> Some (Chars_object (''ABCD'' @ [CHR 0x00]))"
  by (simp add: SetAsDefaultLogger_eq Context_def)

text \<open>
  C3 states that the bytes the receiver copies during the call are those of T. After
  \<^verbatim>\<open>Context("ABCD")\<close> the receiver is handed a non-null pointer and the length 4, and
  its read of four bytes goes to the destroyed \<^verbatim>\<open>value\<close>: the copy has no defined
  result, so it is not guaranteed to be ABCD.
\<close>

theorem C3_roundtrip_undefined_for_ABCD:
  "\<exists>c out. SetAsDefaultLogger set_default_logger_spec
       (Context ''ABCD'' StdoutLoggerBuilder_init) = Inr out \<and>
     calls out = [c] \<and>
     read_chars (memory_during c) (context_ptr (arguments c)) (context_size (arguments c)) =
       undefined_read \<and>
     got_context (effect c) = undefined_read \<and>
     got_context (effect c) \<noteq> copied ''ABCD''"
  by (simp add: SetAsDefaultLogger_eq Context_def set_default_logger_spec_def read_chars_def)

text \<open>
  C7 is the chain of \<^verbatim>\<open>examples/log_cpp_init/src/main.cpp\<close>, line 25:
  \<^verbatim>\<open>Context("ABCD").ShowModule(true).ShowFile(true).ShowLine(true).SetAsDefaultLogger()\<close>.
  It makes exactly one call; the three toggle pointers are non-null and address
  \<^verbatim>\<open>true\<close>; the severity pointer is null; \<^verbatim>\<open>context_size\<close> is 4. But
  \<^verbatim>\<open>context_ptr\<close> addresses the destroyed \<^verbatim>\<open>value\<close> (\<open>value_local = None\<close> in the storage
  of the call), so it does not reference the four bytes ABCD, and the receiver's copy of
  the context is undefined.
\<close>

theorem C7_example_chain:
  "SetAsDefaultLogger set_default_logger_spec
     (run_setters
        [Context_call ''ABCD'', ShowModule_call True, ShowFile_call True, ShowLine_call True]
        StdoutLoggerBuilder_init) =
   Inr \<lparr>calls =
          [\<lparr>arguments =
              \<lparr>context_ptr = Some value_chars, context_size = 4,
               show_module = Some show_module_value, show_file = Some show_file_value,
               show_line = Some show_line_value, log_level = nullptr\<rparr>,
            memory_during =
              \<lparr>this_object =
                 \<lparr>context_member = Some ''ABCD'', show_module_member = Some True,
                  show_file_member = Some True, show_line_member = Some True,
                  log_level_member = None\<rparr>,
               value_local = None\<rparr>,
            effect =
              \<lparr>got_context = undefined_read, got_show_module = copied True,
               got_show_file = copied True, got_show_line = copied True,
               got_severity = absent\<rparr>\<rparr>],
         this_after =
           \<lparr>context_member = Some ''ABCD'', show_module_member = Some True,
            show_file_member = Some True, show_line_member = Some True,
            log_level_member = None\<rparr>\<rparr>"
  by (simp add: SetAsDefaultLogger_eq StdoutLoggerBuilder_init_def Context_def ShowModule_def
      ShowFile_def ShowLine_def set_default_logger_spec_def read_chars_def read_bool_def
      read_ordinal_def)

end
